theory Spec2Isabelle
  imports Complex_Main
begin

section \<open>Values, errors and volumes\<close>

text \<open>
  The filter framework of \<^verbatim>\<open>src/src/leap_filter_sequence.py\<close>. A volume is a dense
  array of voxel values; the model keeps the voxels in a flat list and takes them as real
  numbers. Arrays that meet in one elementwise operation have the same shape in the
  source, so the elementwise operations are written with \<open>map2\<close>.

  numpy does not raise where a power or a quotient leaves the finite numbers (it returns
  \<^verbatim>\<open>inf\<close> or \<^verbatim>\<open>nan\<close>); the reals have no such value, so the model reports
  \<open>NonFinite\<close> at that point. The other errors are the Python exceptions the code can
  raise.

  The arrays of the source hold 32-bit floats. Of their arithmetic the model keeps the
  range of the power operator, which overflows to \<^verbatim>\<open>inf\<close>; the rounding of a result
  that stays in range is not modelled, and the other operations are exact.
\<close>

datatype error = IndexError | NameError | TypeError | NonFinite

type_synonym volume = "real list"

primrec traverse :: "('a \<Rightarrow> error + 'b) \<Rightarrow> 'a list \<Rightarrow> error + 'b list" where
  "traverse g [] = Inr []"
| "traverse g (x # xs) =
     (case g x of
        Inl e \<Rightarrow> Inl e
      | Inr y \<Rightarrow> (case traverse g xs of Inl e \<Rightarrow> Inl e | Inr ys \<Rightarrow> Inr (y # ys)))"

text \<open>A \<^verbatim>\<open>for\<close> loop whose body may fail: the first error ends the loop.\<close>

primrec foldE :: "('a \<Rightarrow> 'b \<Rightarrow> error + 'b) \<Rightarrow> 'a list \<Rightarrow> 'b \<Rightarrow> error + 'b" where
  "foldE g [] s = Inr s"
| "foldE g (x # xs) s = (case g x s of Inl e \<Rightarrow> Inl e | Inr s' \<Rightarrow> foldE g xs s')"

text \<open>
  The largest 32-bit float is \<open>2\<^sup>1\<^sup>2\<^sup>8 - 2\<^sup>1\<^sup>0\<^sup>4\<close> and half a unit in its last place is
  \<open>2\<^sup>1\<^sup>0\<^sup>3\<close>: rounding to nearest takes every magnitude from \<open>float32_overflow\<close> on to
  \<^verbatim>\<open>inf\<close>.
\<close>

definition float32_overflow :: real where
  "float32_overflow = 2 ^ 128 - 2 ^ 103"

definition float32_result :: "real \<Rightarrow> error + real" where
  "float32_result y = (if float32_overflow \<le> \<bar>y\<bar> then Inl NonFinite else Inr y)"

text \<open>
  The numpy operator \<^verbatim>\<open>**\<close> on one voxel of a float32 array with a float exponent:
  \<^verbatim>\<open>0.0 ** 0.0\<close> is 1, zero to a negative power is \<^verbatim>\<open>inf\<close>, a negative base to a
  fractional power is \<^verbatim>\<open>nan\<close>, and a power too large for a 32-bit float is \<^verbatim>\<open>inf\<close>.
\<close>

definition np_power :: "real \<Rightarrow> real \<Rightarrow> error + real" where
  "np_power x e =
     (if 0 < x then float32_result (x powr e)
      else if x = 0 then (if 0 < e then Inr 0 else if e = 0 then Inr 1 else Inl NonFinite)
      else if e = of_int \<lfloor>e\<rfloor> then float32_result (x powi \<lfloor>e\<rfloor>)
      else Inl NonFinite)"

definition np_divide :: "real \<Rightarrow> real \<Rightarrow> error + real" where
  "np_divide a b = (if b = 0 then Inl NonFinite else Inr (a / b))"

definition vpower :: "volume \<Rightarrow> real \<Rightarrow> error + volume" where
  "vpower xs e = traverse (\<lambda>x. np_power x e) xs"

definition vadd :: "volume \<Rightarrow> volume \<Rightarrow> volume" where
  "vadd xs ys = map2 (+) xs ys"

definition vsub :: "volume \<Rightarrow> volume \<Rightarrow> volume" where
  "vsub xs ys = map2 (-) xs ys"

definition vmul :: "volume \<Rightarrow> volume \<Rightarrow> volume" where
  "vmul xs ys = map2 (*) xs ys"

definition smul :: "real \<Rightarrow> volume \<Rightarrow> volume" where
  "smul c xs = map ((*) c) xs"

definition ssub :: "volume \<Rightarrow> real \<Rightarrow> volume" where
  "ssub xs c = map (\<lambda>x. x - c) xs"

definition fill :: "volume \<Rightarrow> real \<Rightarrow> volume" where
  \<comment> \<open>\<^verbatim>\<open>a[:] = c\<close>\<close>
  "fill xs c = map (\<lambda>_. c) xs"

definition assign_where :: "bool list \<Rightarrow> real \<Rightarrow> volume \<Rightarrow> volume" where
  \<comment> \<open>\<^verbatim>\<open>a[ind] = c\<close> for a boolean mask \<^verbatim>\<open>ind\<close>\<close>
  "assign_where ind c xs = map2 (\<lambda>b x. if b then c else x) ind xs"

section \<open>The numeric engine\<close>

text \<open>
  Modelled from the spec: the engine object \<^verbatim>\<open>leapct\<close> (class
  \<^verbatim>\<open>tomographicModels\<close> of the module \<^verbatim>\<open>leapctype\<close>) is not part of the
  sources. Its array primitives are those of the spec's capability contract: a reduction
  \<^verbatim>\<open>sum\<close>, elementwise \<^verbatim>\<open>abs\<close>, \<^verbatim>\<open>sign\<close> and \<^verbatim>\<open>minimum\<close>, the weighted inner
  product \<^verbatim>\<open>innerProd(a, d, d)\<close>, the sum of \<open>a * d * d\<close>, and a copy.
\<close>

definition leapct_sum :: "volume \<Rightarrow> real" where
  "leapct_sum xs = sum_list xs"

definition leapct_abs :: "volume \<Rightarrow> volume" where
  "leapct_abs xs = map abs xs"

definition leapct_sign :: "volume \<Rightarrow> volume" where
  "leapct_sign xs = map sgn xs"

definition leapct_minimum :: "volume \<Rightarrow> volume \<Rightarrow> volume" where
  "leapct_minimum xs ys = map2 min xs ys"

definition leapct_innerProd :: "volume \<Rightarrow> volume \<Rightarrow> volume \<Rightarrow> real" where
  "leapct_innerProd a x y = sum_list (map2 (*) a (map2 (*) x y))"

definition copyData :: "volume \<Rightarrow> volume" where
  "copyData xs = xs"

text \<open>
  Modelled from the spec: the native kernels of the engine are parameters. A kernel that
  filters an array overwrites the array it is given and returns that same array (the
  source reads \<^verbatim>\<open>Bf\<close> after \<^verbatim>\<open>self.leapct.AzimuthalBlur(Bf, self.FWHM)\<close> and drops
  the returned value), so each is a function from the old content to the new one.
\<close>

record leapct =
  leapct_BlurFilter :: "volume \<Rightarrow> real \<Rightarrow> volume"
  leapct_BilateralFilter :: "volume \<Rightarrow> real \<Rightarrow> real \<Rightarrow> real \<Rightarrow> volume"
  leapct_MedianFilter :: "volume \<Rightarrow> real \<Rightarrow> int \<Rightarrow> volume"
  leapct_AzimuthalBlur :: "volume \<Rightarrow> real \<Rightarrow> volume"
  leapct_diffuse :: "volume \<Rightarrow> real \<Rightarrow> nat \<Rightarrow> real \<Rightarrow> volume"
  leapct_TVcost :: "volume \<Rightarrow> real \<Rightarrow> real \<Rightarrow> real \<Rightarrow> real"
  leapct_TVgradient :: "volume \<Rightarrow> real \<Rightarrow> real \<Rightarrow> real \<Rightarrow> volume"
  leapct_TVquadForm :: "volume \<Rightarrow> volume \<Rightarrow> real \<Rightarrow> real \<Rightarrow> real \<Rightarrow> real"

section \<open>Filters\<close>

text \<open>
  A filter object carries the two attributes of the parent class \<^verbatim>\<open>denoisingFilter\<close>
  and the attributes of its own class. \<open>Base\<close> is an instance of the parent class
  itself. A prior volume \<^verbatim>\<open>f_0\<close> is \<open>None\<close> when it was not given.
\<close>

datatype variant =
    Base
  | BlurFilter real
  | BilateralFilter real real real
  | MedianFilter real int
  | TV real real "volume option"
  | LpNorm real "volume option"
  | histogramSparsity "real list" real
  | azimuthalFilter real real

record denoisingFilter =
  weight :: real
  isDifferentiable :: bool
  variant :: variant

subsection \<open>Constructors\<close>

definition denoisingFilter_init :: denoisingFilter where
  "denoisingFilter_init = \<lparr>weight = 1.0, isDifferentiable = False, variant = Base\<rparr>"

definition BlurFilter_init :: "real \<Rightarrow> denoisingFilter" where
  "BlurFilter_init FWHM = \<lparr>weight = 1.0, isDifferentiable = False, variant = BlurFilter FWHM\<rparr>"

definition BilateralFilter_init :: "real \<Rightarrow> real \<Rightarrow> real \<Rightarrow> denoisingFilter" where
  "BilateralFilter_init spatialFWHM intensityFWHM scale =
     \<lparr>weight = 1.0, isDifferentiable = False,
      variant = BilateralFilter spatialFWHM intensityFWHM scale\<rparr>"

definition MedianFilter_init :: "real \<Rightarrow> int \<Rightarrow> denoisingFilter" where
  "MedianFilter_init threshold windowSize =
     \<lparr>weight = 1.0, isDifferentiable = False, variant = MedianFilter threshold windowSize\<rparr>"

definition TV_init :: "real \<Rightarrow> real \<Rightarrow> real \<Rightarrow> volume option \<Rightarrow> denoisingFilter" where
  "TV_init delta p w f_0 =
     \<lparr>weight = w, isDifferentiable = True, variant = TV delta (max 0.01 p) f_0\<rparr>"

definition LpNorm_init :: "real \<Rightarrow> real \<Rightarrow> volume option \<Rightarrow> denoisingFilter" where
  "LpNorm_init p w f_0 =
     \<lparr>weight = w, isDifferentiable = True, variant = LpNorm (max 0.0 p) f_0\<rparr>"

definition azimuthalFilter_init :: "real \<Rightarrow> real \<Rightarrow> real \<Rightarrow> denoisingFilter" where
  "azimuthalFilter_init FWHM p w =
     \<lparr>weight = w, isDifferentiable = True, variant = azimuthalFilter FWHM p\<rparr>"

text \<open>
  \<^verbatim>\<open>histogramSparsity.__init__\<close>: zero is appended when absent, the targets are the
  sorted distinct values, and the test \<^verbatim>\<open>mus.size > 1\<close> reads the array before the
  duplicates are removed while \<^verbatim>\<open>self.mus[1]\<close> reads the array after. The product
  \<^verbatim>\<open>0.25*minDist*minDist\<close> is exact here: a gap so small that the float64 product
  underflows to 0.0 is outside the model.
\<close>

definition histogramSparsity_init :: "real list \<Rightarrow> real \<Rightarrow> error + denoisingFilter" where
  "histogramSparsity_init mus w =
     (let mus1 = (if 0 \<in> set mus then mus else mus @ [0.0]);
          self_mus = sort (remdups mus1)
      in if length mus1 > 1 then
           (if length self_mus > 1 then
              (let minDist0 = \<bar>self_mus ! 1 - self_mus ! 0\<bar>;
                   minDist = fold (\<lambda>l m. min m \<bar>self_mus ! l - self_mus ! (l - 1)\<bar>)
                                  [1..<length self_mus] minDist0
               in Inr \<lparr>weight = w, isDifferentiable = True,
                       variant = histogramSparsity self_mus (0.25 * minDist * minDist)\<rparr>)
            else Inl IndexError)
         else Inr \<lparr>weight = w, isDifferentiable = True,
                   variant = histogramSparsity self_mus 0.00001\<rparr>)"

subsection \<open>TV\<close>

definition TV_cost :: "leapct \<Rightarrow> real \<Rightarrow> real \<Rightarrow> real \<Rightarrow> volume option \<Rightarrow> volume \<Rightarrow> real" where
  "TV_cost E w delta p f_0 f =
     (case f_0 of
        Some f0 \<Rightarrow> leapct_TVcost E (vsub f f0) delta w p
      | None \<Rightarrow> leapct_TVcost E f delta w p)"

definition TV_gradient :: "leapct \<Rightarrow> real \<Rightarrow> real \<Rightarrow> real \<Rightarrow> volume option \<Rightarrow> volume \<Rightarrow> volume" where
  "TV_gradient E w delta p f_0 f =
     (case f_0 of
        Some f0 \<Rightarrow> leapct_TVgradient E (vsub f f0) delta w p
      | None \<Rightarrow> leapct_TVgradient E f delta w p)"

definition TV_quadForm ::
  "leapct \<Rightarrow> real \<Rightarrow> real \<Rightarrow> real \<Rightarrow> volume option \<Rightarrow> volume \<Rightarrow> volume \<Rightarrow> real" where
  "TV_quadForm E w delta p f_0 f d =
     (case f_0 of
        Some f0 \<Rightarrow> leapct_TVquadForm E (vsub f f0) d delta w p
      | None \<Rightarrow> leapct_TVquadForm E f d delta w p)"

text \<open>
  \<^verbatim>\<open>TV.apply\<close> returns the new content of the caller's array \<^verbatim>\<open>f\<close>. With a prior, the
  engine's diffusion runs on the temporary array \<^verbatim>\<open>f - self.f_0\<close> and what it leaves
  there is not read again; then \<^verbatim>\<open>f[:] += self.f_0[:]\<close>.
\<close>

definition TV_apply :: "leapct \<Rightarrow> real \<Rightarrow> real \<Rightarrow> volume option \<Rightarrow> volume \<Rightarrow> volume" where
  "TV_apply E delta p f_0 f =
     (case f_0 of
        Some f0 \<Rightarrow>
          (let tmp = vsub f f0;
               diffused = leapct_diffuse E tmp delta 1 p
           in vadd f f0)
      | None \<Rightarrow> leapct_diffuse E f delta 1 p)"

subsection \<open>LpNorm\<close>

definition LpNorm_cost :: "real \<Rightarrow> real \<Rightarrow> volume option \<Rightarrow> volume \<Rightarrow> error + real" where
  "LpNorm_cost w p f_0 f =
     (case f_0 of
        Some f0 \<Rightarrow>
          (case vpower (leapct_abs (vsub f f0)) p of
             Inl e \<Rightarrow> Inl e
           | Inr t \<Rightarrow> Inr (w * leapct_sum t))
      | None \<Rightarrow>
          (case vpower (leapct_abs f) p of
             Inl e \<Rightarrow> Inl e
           | Inr t \<Rightarrow> Inr (w * leapct_sum t)))"

definition LpNorm_gradient :: "real \<Rightarrow> real \<Rightarrow> volume option \<Rightarrow> volume \<Rightarrow> error + volume" where
  "LpNorm_gradient w p f_0 f =
     (let Df = (case f_0 of Some f0 \<Rightarrow> vsub (copyData f) f0 | None \<Rightarrow> copyData f)
      in case vpower (leapct_abs Df) (p - 1.0) of
           Inl e \<Rightarrow> Inl e
         | Inr t \<Rightarrow> Inr (vmul (smul (w * p) (leapct_sign Df)) t))"

definition LpNorm_quadForm ::
  "real \<Rightarrow> real \<Rightarrow> volume option \<Rightarrow> volume \<Rightarrow> volume \<Rightarrow> error + real" where
  "LpNorm_quadForm w p f_0 f d =
     (case f_0 of
        Some f0 \<Rightarrow>
          (let f_copy = vsub (copyData f) f0;
               ind = map (\<lambda>x. x = 0.0) f_copy;
               f_copy1 = assign_where ind 1.0 f_copy
           in case vpower (leapct_abs f_copy1) (p - 2.0) of
                Inl e \<Rightarrow> Inl e
              | Inr t \<Rightarrow> Inr (w * p * leapct_innerProd (assign_where ind 0.0 t) d d))
      | None \<Rightarrow>
          (let ind = map (\<lambda>x. x = 0.0) f;
               f_copy1 = assign_where ind 1.0 (copyData f)
           in case vpower (leapct_abs f_copy1) (p - 2.0) of
                Inl e \<Rightarrow> Inl e
              | Inr t \<Rightarrow> Inr (w * p * leapct_innerProd (assign_where ind 0.0 t) d d)))"

subsection \<open>histogramSparsity\<close>

definition Geman0 :: "real \<Rightarrow> real \<Rightarrow> error + real" where
  "Geman0 GemanParam x = np_divide (x * x) (x * x + GemanParam)"

definition Geman1 :: "real \<Rightarrow> real \<Rightarrow> error + real" where
  "Geman1 GemanParam x =
     np_divide (2.0 * GemanParam * x) ((x * x + GemanParam) * (x * x + GemanParam))"

definition Geman1_over_x :: "real \<Rightarrow> real \<Rightarrow> error + real" where
  "Geman1_over_x GemanParam x =
     np_divide (2.0 * GemanParam) ((x * x + GemanParam) * (x * x + GemanParam))"

definition histogramSparsity_cost :: "real \<Rightarrow> real list \<Rightarrow> real \<Rightarrow> volume \<Rightarrow> error + real" where
  "histogramSparsity_cost w mus GemanParam f =
     (case foldE (\<lambda>l curTerm.
                    case traverse (Geman0 GemanParam) (ssub f (mus ! l)) of
                      Inl e \<Rightarrow> Inl e
                    | Inr g \<Rightarrow> Inr (vmul curTerm g))
                 [0..<length mus] (fill (copyData f) 1.0) of
        Inl e \<Rightarrow> Inl e
      | Inr curTerm \<Rightarrow> Inr (w * leapct_sum curTerm))"

definition histogramSparsity_gradient ::
  "real \<Rightarrow> real list \<Rightarrow> real \<Rightarrow> volume \<Rightarrow> error + volume" where
  "histogramSparsity_gradient w mus GemanParam f =
     foldE (\<lambda>l_1 Sp.
              case foldE (\<lambda>l_2 curTerm.
                            case (if l_1 = l_2
                                  then traverse (Geman1 GemanParam) (ssub f (mus ! l_1))
                                  else traverse (Geman0 GemanParam) (ssub f (mus ! l_2))) of
                              Inl e \<Rightarrow> Inl e
                            | Inr g \<Rightarrow> Inr (vmul curTerm g))
                         [0..<length mus] (fill (copyData f) 1.0) of
                Inl e \<Rightarrow> Inl e
              | Inr curTerm \<Rightarrow> Inr (smul w (vadd Sp curTerm)))
           [0..<length mus] (fill (copyData f) 0.0)"

text \<open>
  \<^verbatim>\<open>histogramSparsity.quadForm\<close>: after the first target, each pass of the loop takes the
  distance of the running \<^verbatim>\<open>minDiff\<close> (not of \<^verbatim>\<open>f\<close>) to the next target.
\<close>

definition histogramSparsity_quadForm ::
  "real \<Rightarrow> real list \<Rightarrow> real \<Rightarrow> volume \<Rightarrow> volume \<Rightarrow> error + real" where
  "histogramSparsity_quadForm w mus GemanParam f d =
     (if mus = [] then Inl IndexError
      else
        (let minDiff0 = leapct_abs (ssub (copyData f) (mus ! 0));
             minDiff = fold (\<lambda>l minDiff. leapct_minimum minDiff (leapct_abs (ssub minDiff (mus ! l))))
                            [1..<length mus] minDiff0
         in case traverse (Geman1_over_x GemanParam) minDiff of
              Inl e \<Rightarrow> Inl e
            | Inr g \<Rightarrow> Inr (w * leapct_innerProd g d d)))"

subsection \<open>azimuthalFilter\<close>

text \<open>
  \<^verbatim>\<open>azimuthalFilter.cost\<close> raises the high-pass component to the power \<^verbatim>\<open>p\<close>, a bare
  name that is neither a local nor an attribute: Python looks it up among the module's
  globals. The module binds no such name itself; \<open>global_p\<close> is what
  \<^verbatim>\<open>from leapctype import *\<close> binds to it, if anything.
\<close>

definition azimuthalFilter_cost ::
  "leapct \<Rightarrow> real option \<Rightarrow> real \<Rightarrow> real \<Rightarrow> real \<Rightarrow> volume \<Rightarrow> error + real" where
  "azimuthalFilter_cost E global_p w FWHM p f =
     (let Bf = leapct_AzimuthalBlur E (copyData f) FWHM;
          Bf1 = vsub f Bf
      in case global_p of
           None \<Rightarrow> Inl NameError
         | Some q \<Rightarrow>
             (case vpower (leapct_abs Bf1) q of
                Inl e \<Rightarrow> Inl e
              | Inr t \<Rightarrow> Inr (w * leapct_sum t)))"

definition azimuthalFilter_gradient ::
  "leapct \<Rightarrow> real \<Rightarrow> real \<Rightarrow> real \<Rightarrow> volume \<Rightarrow> error + volume" where
  "azimuthalFilter_gradient E w FWHM p f =
     (let Bf = leapct_AzimuthalBlur E (copyData f) FWHM;
          Bf1 = vsub f Bf
      in case vpower (leapct_abs Bf1) (p - 1.0) of
           Inl e \<Rightarrow> Inl e
         | Inr t \<Rightarrow>
             (let Bf2 = vmul (smul p (leapct_sign Bf1)) t;
                  BBf = leapct_AzimuthalBlur E (copyData Bf2) FWHM;
                  Bf3 = vsub Bf2 BBf
              in Inr (smul w Bf3)))"

definition azimuthalFilter_quadForm ::
  "leapct \<Rightarrow> real \<Rightarrow> real \<Rightarrow> real \<Rightarrow> volume \<Rightarrow> volume \<Rightarrow> error + real" where
  "azimuthalFilter_quadForm E w FWHM p f d =
     (let Bf = vsub f (leapct_AzimuthalBlur E (copyData f) FWHM);
          Bd = vsub d (leapct_AzimuthalBlur E (copyData d) FWHM);
          ind = map (\<lambda>x. x = 0.0) Bf;
          Bf1 = assign_where ind 1.0 Bf
      in case vpower (leapct_abs Bf1) (p - 2.0) of
           Inl e \<Rightarrow> Inl e
         | Inr t \<Rightarrow> Inr (w * p * leapct_innerProd (assign_where ind 0.0 t) Bd Bd))"

section \<open>Dispatch on the class of a filter\<close>

text \<open>
  The methods \<^verbatim>\<open>cost\<close>, \<^verbatim>\<open>gradient\<close> and \<^verbatim>\<open>quadForm\<close> of the parent class are
  \<^verbatim>\<open>pass\<close>: they return Python's \<^verbatim>\<open>None\<close>, here the \<open>None\<close> of the option type. The
  smoothing filters inherit them.
\<close>

definition filter_cost ::
  "leapct \<Rightarrow> real option \<Rightarrow> denoisingFilter \<Rightarrow> volume \<Rightarrow> error + real option" where
  "filter_cost E global_p flt f =
     (case variant flt of
        Base \<Rightarrow> Inr None
      | BlurFilter FWHM \<Rightarrow> Inr None
      | BilateralFilter spatialFWHM intensityFWHM scale \<Rightarrow> Inr None
      | MedianFilter threshold windowSize \<Rightarrow> Inr None
      | TV delta p f_0 \<Rightarrow> Inr (Some (TV_cost E (weight flt) delta p f_0 f))
      | LpNorm p f_0 \<Rightarrow> map_sum id Some (LpNorm_cost (weight flt) p f_0 f)
      | histogramSparsity mus GemanParam \<Rightarrow>
          map_sum id Some (histogramSparsity_cost (weight flt) mus GemanParam f)
      | azimuthalFilter FWHM p \<Rightarrow>
          map_sum id Some (azimuthalFilter_cost E global_p (weight flt) FWHM p f))"

definition filter_gradient ::
  "leapct \<Rightarrow> denoisingFilter \<Rightarrow> volume \<Rightarrow> error + volume option" where
  "filter_gradient E flt f =
     (case variant flt of
        Base \<Rightarrow> Inr None
      | BlurFilter FWHM \<Rightarrow> Inr None
      | BilateralFilter spatialFWHM intensityFWHM scale \<Rightarrow> Inr None
      | MedianFilter threshold windowSize \<Rightarrow> Inr None
      | TV delta p f_0 \<Rightarrow> Inr (Some (TV_gradient E (weight flt) delta p f_0 f))
      | LpNorm p f_0 \<Rightarrow> map_sum id Some (LpNorm_gradient (weight flt) p f_0 f)
      | histogramSparsity mus GemanParam \<Rightarrow>
          map_sum id Some (histogramSparsity_gradient (weight flt) mus GemanParam f)
      | azimuthalFilter FWHM p \<Rightarrow>
          map_sum id Some (azimuthalFilter_gradient E (weight flt) FWHM p f))"

definition filter_quadForm ::
  "leapct \<Rightarrow> denoisingFilter \<Rightarrow> volume \<Rightarrow> volume \<Rightarrow> error + real option" where
  "filter_quadForm E flt f d =
     (case variant flt of
        Base \<Rightarrow> Inr None
      | BlurFilter FWHM \<Rightarrow> Inr None
      | BilateralFilter spatialFWHM intensityFWHM scale \<Rightarrow> Inr None
      | MedianFilter threshold windowSize \<Rightarrow> Inr None
      | TV delta p f_0 \<Rightarrow> Inr (Some (TV_quadForm E (weight flt) delta p f_0 f d))
      | LpNorm p f_0 \<Rightarrow> map_sum id Some (LpNorm_quadForm (weight flt) p f_0 f d)
      | histogramSparsity mus GemanParam \<Rightarrow>
          map_sum id Some (histogramSparsity_quadForm (weight flt) mus GemanParam f d)
      | azimuthalFilter FWHM p \<Rightarrow>
          map_sum id Some (azimuthalFilter_quadForm E (weight flt) FWHM p f d))"

subsection \<open>The generic \<^verbatim>\<open>apply\<close> of the parent class\<close>

text \<open>
  An \<^verbatim>\<open>apply\<close> method works on the caller's array \<^verbatim>\<open>f\<close>. Its result \<open>Some v\<close> says
  that the method returned that array and that the array now holds \<open>v\<close>; \<open>None\<close> says
  that it returned \<^verbatim>\<open>None\<close> and left the array as it was. Arithmetic or a comparison on
  \<^verbatim>\<open>None\<close> raises \<^verbatim>\<open>TypeError\<close>.
\<close>

definition denoisingFilter_apply ::
  "leapct \<Rightarrow> denoisingFilter \<Rightarrow> volume \<Rightarrow> error + volume option" where
  "denoisingFilter_apply E flt f =
     (if isDifferentiable flt then
        (case filter_gradient E flt f of
           Inl e \<Rightarrow> Inl e
         | Inr None \<Rightarrow> Inl TypeError
         | Inr (Some d) \<Rightarrow>
             (let num = leapct_sum (map (\<lambda>x. x ^ 2) d)
              in case filter_quadForm E flt f d of
                   Inl e \<Rightarrow> Inl e
                 | Inr None \<Rightarrow> Inl TypeError
                 | Inr (Some denom) \<Rightarrow>
                     if denom \<le> 1 / 10 ^ 16 then Inr (Some f)
                     else (let stepSize = num / denom
                           in Inr (Some (vsub f (smul stepSize d))))))
      else Inr None)"

definition LpNorm_apply ::
  "leapct \<Rightarrow> denoisingFilter \<Rightarrow> volume option \<Rightarrow> volume \<Rightarrow> error + volume option" where
  "LpNorm_apply E flt f_0 f =
     (case f_0 of
        Some f0 \<Rightarrow>
          (case denoisingFilter_apply E flt (vsub f f0) of
             Inl e \<Rightarrow> Inl e
           | Inr None \<Rightarrow> Inl TypeError
           | Inr (Some g) \<Rightarrow> Inr (Some (vadd g f0)))
      | None \<Rightarrow> denoisingFilter_apply E flt f)"

definition filter_apply ::
  "leapct \<Rightarrow> denoisingFilter \<Rightarrow> volume \<Rightarrow> error + volume option" where
  "filter_apply E flt f =
     (case variant flt of
        Base \<Rightarrow> denoisingFilter_apply E flt f
      | BlurFilter FWHM \<Rightarrow> Inr (Some (leapct_BlurFilter E f FWHM))
      | BilateralFilter spatialFWHM intensityFWHM scale \<Rightarrow>
          Inr (Some (leapct_BilateralFilter E f spatialFWHM intensityFWHM scale))
      | MedianFilter threshold windowSize \<Rightarrow>
          Inr (Some (leapct_MedianFilter E f threshold windowSize))
      | TV delta p f_0 \<Rightarrow> Inr (Some (TV_apply E delta p f_0 f))
      | LpNorm p f_0 \<Rightarrow> LpNorm_apply E flt f_0 f
      | histogramSparsity mus GemanParam \<Rightarrow> denoisingFilter_apply E flt f
      | azimuthalFilter FWHM p \<Rightarrow> denoisingFilter_apply E flt f)"

section \<open>filterSequence\<close>

record filterSequence =
  filters :: "denoisingFilter list"
  beta :: real

definition filterSequence_init :: "real \<Rightarrow> filterSequence" where
  "filterSequence_init b = \<lparr>filters = [], beta = b\<rparr>"

definition filterSequence_append :: "filterSequence \<Rightarrow> denoisingFilter \<Rightarrow> filterSequence" where
  "filterSequence_append s newFilter = s\<lparr>filters := filters s @ [newFilter]\<rparr>"

definition filterSequence_clear :: "filterSequence \<Rightarrow> filterSequence" where
  "filterSequence_clear s = s\<lparr>filters := []\<rparr>"

definition filterSequence_cost ::
  "leapct \<Rightarrow> real option \<Rightarrow> filterSequence \<Rightarrow> volume \<Rightarrow> error + real" where
  "filterSequence_cost E global_p s f =
     (if beta s > 0.0 then
        (case foldE (\<lambda>n retVal.
                       if isDifferentiable (filters s ! n) \<and> weight (filters s ! n) > 0.0
                       then (case filter_cost E global_p (filters s ! n) f of
                               Inl e \<Rightarrow> Inl e
                             | Inr None \<Rightarrow> Inl TypeError
                             | Inr (Some c) \<Rightarrow> Inr (retVal + c))
                       else Inr retVal)
                    [0..<length (filters s)] 0.0 of
           Inl e \<Rightarrow> Inl e
         | Inr retVal \<Rightarrow> Inr (retVal * beta s))
      else Inr 0.0)"

text \<open>\<^verbatim>\<open>self.filters[0]\<close> raises \<^verbatim>\<open>IndexError\<close> on an empty list.\<close>

definition filterSequence_gradient ::
  "leapct \<Rightarrow> filterSequence \<Rightarrow> volume \<Rightarrow> error + volume" where
  "filterSequence_gradient E s f =
     (if filters s = [] then Inl IndexError
      else
        (let D = fill (copyData f) 0.0
         in if beta s > 0.0 then
              (case foldE (\<lambda>n D.
                             if isDifferentiable (filters s ! n) \<and> weight (filters s ! n) > 0.0
                             then (case filter_gradient E (filters s ! n) f of
                                     Inl e \<Rightarrow> Inl e
                                   | Inr None \<Rightarrow> Inl TypeError
                                   | Inr (Some g) \<Rightarrow> Inr (vadd D g))
                             else Inr D)
                          [0..<length (filters s)] D of
                 Inl e \<Rightarrow> Inl e
               | Inr D' \<Rightarrow> Inr (smul (beta s) D'))
            else Inr D))"

definition filterSequence_quadForm ::
  "leapct \<Rightarrow> filterSequence \<Rightarrow> volume \<Rightarrow> volume \<Rightarrow> error + real" where
  "filterSequence_quadForm E s f d =
     (if beta s > 0.0 then
        (case foldE (\<lambda>n retVal.
                       if isDifferentiable (filters s ! n) \<and> weight (filters s ! n) > 0.0
                       then (case filter_quadForm E (filters s ! n) f d of
                               Inl e \<Rightarrow> Inl e
                             | Inr None \<Rightarrow> Inl TypeError
                             | Inr (Some c) \<Rightarrow> Inr (retVal + c))
                       else Inr retVal)
                    [0..<length (filters s)] 0.0 of
           Inl e \<Rightarrow> Inl e
         | Inr retVal \<Rightarrow> Inr (retVal * beta s))
      else Inr 0.0)"

text \<open>
  \<^verbatim>\<open>filterSequence.apply\<close> calls every filter on the same array, drops what the call
  returns and returns the array.
\<close>

definition filterSequence_apply ::
  "leapct \<Rightarrow> filterSequence \<Rightarrow> volume \<Rightarrow> error + volume" where
  "filterSequence_apply E s f =
     foldE (\<lambda>n f. case filter_apply E (filters s ! n) f of
                     Inl e \<Rightarrow> Inl e
                   | Inr None \<Rightarrow> Inr f
                   | Inr (Some v) \<Rightarrow> Inr v)
           [0..<length (filters s)] f"

section \<open>Reference notions\<close>

text \<open>
  An engine whose kernels leave every volume as it is and whose TV functional is flat. It
  serves to evaluate the filters at concrete inputs.
\<close>

definition still_leapct :: leapct where
  "still_leapct =
     \<lparr>leapct_BlurFilter = (\<lambda>v FWHM. v),
      leapct_BilateralFilter = (\<lambda>v spatialFWHM intensityFWHM scale. v),
      leapct_MedianFilter = (\<lambda>v threshold windowSize. v),
      leapct_AzimuthalBlur = (\<lambda>v FWHM. v),
      leapct_diffuse = (\<lambda>v delta numIter p. v),
      leapct_TVcost = (\<lambda>v delta w p. 0),
      leapct_TVgradient = (\<lambda>v delta w p. map (\<lambda>_. 0) v),
      leapct_TVquadForm = (\<lambda>v d delta w p. 0)\<rparr>"

text \<open>The classes that do not define \<^verbatim>\<open>apply\<close> and so run the one of the parent class.\<close>

fun inherits_apply :: "variant \<Rightarrow> bool" where
  "inherits_apply Base = True"
| "inherits_apply (histogramSparsity mus GemanParam) = True"
| "inherits_apply (azimuthalFilter FWHM p) = True"
| "inherits_apply _ = False"

text \<open>
  The filters that take part in \<^verbatim>\<open>cost\<close>, \<^verbatim>\<open>gradient\<close> and \<^verbatim>\<open>quadForm\<close> of a
  sequence, in the spec's words: those with \<^verbatim>\<open>isDifferentiable && weight > 0\<close>.
\<close>

definition participating :: "filterSequence \<Rightarrow> denoisingFilter list" where
  "participating s = filter (\<lambda>flt. isDifferentiable flt \<and> weight flt > 0) (filters s)"

text \<open>
  Applying every filter of a list in order, each stage on the array as the stage before
  left it, in the spec's words; neither \<^verbatim>\<open>beta\<close> nor a flag of a filter is consulted.
\<close>

primrec apply_in_order :: "leapct \<Rightarrow> denoisingFilter list \<Rightarrow> volume \<Rightarrow> error + volume" where
  "apply_in_order E [] f = Inr f"
| "apply_in_order E (flt # fs) f =
     (case filter_apply E flt f of
        Inl e \<Rightarrow> Inl e
      | Inr None \<Rightarrow> apply_in_order E fs f
      | Inr (Some v) \<Rightarrow> apply_in_order E fs v)"

text \<open>
  The quadratic form of \<^verbatim>\<open>histogramSparsity\<close> in the spec's words: \<open>minDist\<close> is, voxel
  by voxel, the least distance \<open>|f - mu|\<close> from \<open>f\<close> to a target, and the weight of a voxel
  is \<open>G1(minDist) / minDist\<close>.
\<close>

definition minDist_spec :: "real list \<Rightarrow> volume \<Rightarrow> volume" where
  "minDist_spec mus f = map (\<lambda>x. Min (set (map (\<lambda>mu. \<bar>x - mu\<bar>) mus))) f"

definition histogramSparsity_quadForm_spec ::
  "real \<Rightarrow> real list \<Rightarrow> real \<Rightarrow> volume \<Rightarrow> volume \<Rightarrow> error + real" where
  "histogramSparsity_quadForm_spec w mus GemanParam f d =
     (case traverse (\<lambda>m. case Geman1 GemanParam m of
                            Inl e \<Rightarrow> Inl e
                          | Inr g1 \<Rightarrow> np_divide g1 m)
                    (minDist_spec mus f) of
        Inl e \<Rightarrow> Inl e
      | Inr a \<Rightarrow> Inr (w * leapct_innerProd a d d))"

text \<open>
  The construction of \<^verbatim>\<open>histogramSparsity\<close> in the spec's words: the targets are the
  distinct values of \<^verbatim>\<open>mus\<close> and 0, in ascending order; \<^verbatim>\<open>GemanParam\<close> is a quarter of
  the square of the least gap between two different targets, and \<open>1e-5\<close> when there is one
  target only.
\<close>

definition targets_spec :: "real list \<Rightarrow> real list" where
  "targets_spec mus = sorted_list_of_set (insert 0 (set mus))"

definition min_pairwise_gap :: "real list \<Rightarrow> real" where
  "min_pairwise_gap ms =
     Min (set (concat (map (\<lambda>a. map (\<lambda>b. \<bar>a - b\<bar>) (filter (\<lambda>b. b \<noteq> a) ms)) ms)))"

definition GemanParam_spec :: "real list \<Rightarrow> real" where
  "GemanParam_spec ms = (if length ms > 1 then 0.25 * (min_pairwise_gap ms) ^ 2 else 0.00001)"


section \<open>The generic step of the parent class\<close>

lemma filter_apply_inherited:
  "inherits_apply (variant flt) \<Longrightarrow> filter_apply E flt f = denoisingFilter_apply E flt f"
  by (cases "variant flt") (simp_all add: filter_apply_def)

text \<open>
  C1. A filter of a class that inherits \<^verbatim>\<open>apply\<close>: when it is differentiable and its
  gradient \<open>g\<close> and the quadratic form \<open>denom\<close> of \<open>f\<close> along \<open>g\<close> are numbers, \<^verbatim>\<open>apply\<close>
  returns \<open>f\<close> unchanged if \<open>denom \<le> 1e-16\<close> and \<open>f - (sum(g\<^sup>2) / denom) * g\<close> otherwise; when
  it is not differentiable, \<^verbatim>\<open>apply\<close> returns \<^verbatim>\<open>None\<close>.
\<close>

theorem generic_apply_step:
  assumes "inherits_apply (variant flt)"
  shows "(isDifferentiable flt \<and> filter_gradient E flt f = Inr (Some g)
            \<and> filter_quadForm E flt f g = Inr (Some denom)
          \<longrightarrow> filter_apply E flt f =
                Inr (Some (if denom \<le> 1 / 10 ^ 16 then f
                           else vsub f (smul (leapct_sum (map (\<lambda>x. x ^ 2) g) / denom) g))))
       \<and> (\<not> isDifferentiable flt \<longrightarrow> filter_apply E flt f = Inr None)"
  using assms by (simp add: filter_apply_inherited denoisingFilter_apply_def)

theorem generic_apply_step_witness:
  "inherits_apply (variant (azimuthalFilter_init 1 2 1))
   \<and> isDifferentiable (azimuthalFilter_init 1 2 1)
   \<and> filter_gradient (still_leapct\<lparr>leapct_AzimuthalBlur := (\<lambda>v FWHM. map (\<lambda>x. x / 2) v)\<rparr>)
        (azimuthalFilter_init 1 2 1) [2] = Inr (Some [1])
   \<and> filter_quadForm (still_leapct\<lparr>leapct_AzimuthalBlur := (\<lambda>v FWHM. map (\<lambda>x. x / 2) v)\<rparr>)
        (azimuthalFilter_init 1 2 1) [2] [1] = Inr (Some (1 / 2))
   \<and> filter_apply (still_leapct\<lparr>leapct_AzimuthalBlur := (\<lambda>v FWHM. map (\<lambda>x. x / 2) v)\<rparr>)
        (azimuthalFilter_init 1 2 1) [2] = Inr (Some [0])
   \<and> inherits_apply (variant denoisingFilter_init)
   \<and> \<not> isDifferentiable denoisingFilter_init
   \<and> filter_apply still_leapct denoisingFilter_init [2] = Inr None"
  using generic_apply_step [of "azimuthalFilter_init 1 2 1"
        "still_leapct\<lparr>leapct_AzimuthalBlur := (\<lambda>v FWHM. map (\<lambda>x. x / 2) v)\<rparr>" "[2]" "[1]" "1 / 2"]
    generic_apply_step [of denoisingFilter_init still_leapct "[2]"]
  by (simp add: azimuthalFilter_init_def denoisingFilter_init_def filter_gradient_def
      filter_quadForm_def azimuthalFilter_gradient_def azimuthalFilter_quadForm_def
      still_leapct_def copyData_def vsub_def vpower_def leapct_abs_def np_power_def float32_result_def float32_overflow_def
      leapct_sign_def vmul_def smul_def assign_where_def leapct_innerProd_def leapct_sum_def
      Let_def)

section \<open>Sequences of filters\<close>

lemma foldE_nth: "foldE (\<lambda>n. g (xs ! n)) [0..<length xs] s = foldE g xs s"
proof -
  have "foldE (\<lambda>n. g (xs ! n)) ns s = foldE g (map (\<lambda>n. xs ! n) ns) s" for ns
    by (induction ns arbitrary: s) (auto split: sum.splits)
  from this [of "[0..<length xs]"] show ?thesis by (simp add: map_nth)
qed

lemma foldE_scalar_sum:
  "list_all2 (\<lambda>flt c. k flt = Inr (Some c)) (filter sel fs) cs \<Longrightarrow>
   foldE (\<lambda>flt retVal. if sel flt
                         then (case k flt of Inl e \<Rightarrow> Inl e | Inr None \<Rightarrow> Inl TypeError
                               | Inr (Some c) \<Rightarrow> Inr (retVal + c))
                         else Inr retVal) fs acc
     = Inr (acc + sum_list cs)"
proof (induction fs arbitrary: acc cs)
  case Nil
  then show ?case by simp
next
  case (Cons flt fs)
  show ?case
  proof (cases "sel flt")
    case True
    with Cons.prems obtain c cs' where cs: "cs = c # cs'" and c: "k flt = Inr (Some c)"
      and rest: "list_all2 (\<lambda>flt c. k flt = Inr (Some c)) (filter sel fs) cs'"
      by (auto simp: list_all2_Cons1)
    from Cons.IH [OF rest] True c cs show ?thesis by (simp add: add.assoc)
  next
    case False
    with Cons.prems Cons.IH [of cs acc] show ?thesis by simp
  qed
qed

lemma foldE_volume_sum:
  "list_all2 (\<lambda>flt g. k flt = Inr (Some g) \<and> length g = n) (filter sel fs) gs \<Longrightarrow>
   length D = n \<Longrightarrow>
   foldE (\<lambda>flt D. if sel flt
                    then (case k flt of Inl e \<Rightarrow> Inl e | Inr None \<Rightarrow> Inl TypeError
                          | Inr (Some g) \<Rightarrow> Inr (vadd D g))
                    else Inr D) fs D
     = Inr (map (\<lambda>i. D ! i + (\<Sum>g\<leftarrow>gs. g ! i)) [0..<n])"
proof (induction fs arbitrary: D gs)
  case Nil
  then show ?case using map_nth [of D] by auto
next
  case (Cons flt fs)
  show ?case
  proof (cases "sel flt")
    case True
    with Cons.prems obtain g gs' where gs: "gs = g # gs'" and g: "k flt = Inr (Some g)"
      and len: "length g = n"
      and rest: "list_all2 (\<lambda>flt g. k flt = Inr (Some g) \<and> length g = n) (filter sel fs) gs'"
      by (auto simp: list_all2_Cons1)
    have l: "length (vadd D g) = n"
      using Cons.prems(2) len by (simp add: vadd_def)
    have "map (\<lambda>i. vadd D g ! i + (\<Sum>g\<leftarrow>gs'. g ! i)) [0..<n]
            = map (\<lambda>i. D ! i + (\<Sum>g\<leftarrow>gs. g ! i)) [0..<n]"
      using Cons.prems(2) len gs by (auto simp: vadd_def)
    with Cons.IH [OF rest l] True g show ?thesis by simp
  next
    case False
    with Cons.prems Cons.IH [of gs D] show ?thesis by simp
  qed
qed

text \<open>
  C2. For a nonempty filter list: with \<open>beta \<le> 0\<close> the cost and the quadratic form of the
  sequence are 0 and its gradient is the zero volume of the shape of \<open>f\<close>; with \<open>beta > 0\<close>
  each of the three is \<open>beta\<close> times the sum of what the participating filters (the
  differentiable ones of positive weight) return. No other filter enters the sums.
\<close>

theorem filterSequence_weighted_sums:
  assumes "filters s \<noteq> []"
  shows "(beta s \<le> 0 \<longrightarrow>
            filterSequence_cost E G s f = Inr 0
          \<and> filterSequence_gradient E s f = Inr (map (\<lambda>_. 0) f)
          \<and> filterSequence_quadForm E s f d = Inr 0)
       \<and> (0 < beta s
            \<and> list_all2 (\<lambda>flt c. filter_cost E G flt f = Inr (Some c)) (participating s) cs
          \<longrightarrow> filterSequence_cost E G s f = Inr (beta s * sum_list cs))
       \<and> (0 < beta s
            \<and> list_all2 (\<lambda>flt g. filter_gradient E flt f = Inr (Some g) \<and> length g = length f)
                 (participating s) gs
          \<longrightarrow> filterSequence_gradient E s f
                = Inr (map (\<lambda>i. beta s * (\<Sum>g\<leftarrow>gs. g ! i)) [0..<length f]))
       \<and> (0 < beta s
            \<and> list_all2 (\<lambda>flt q. filter_quadForm E flt f d = Inr (Some q)) (participating s) qs
          \<longrightarrow> filterSequence_quadForm E s f d = Inr (beta s * sum_list qs))"
proof (intro conjI impI)
  assume "beta s \<le> 0"
  then show "filterSequence_cost E G s f = Inr 0"
    by (simp add: filterSequence_cost_def)
next
  assume "beta s \<le> 0"
  then show "filterSequence_gradient E s f = Inr (map (\<lambda>_. 0) f)"
    using assms by (simp add: filterSequence_gradient_def fill_def copyData_def)
next
  assume "beta s \<le> 0"
  then show "filterSequence_quadForm E s f d = Inr 0"
    by (simp add: filterSequence_quadForm_def)
next
  assume a: "0 < beta s
     \<and> list_all2 (\<lambda>flt c. filter_cost E G flt f = Inr (Some c)) (participating s) cs"
  then have "foldE (\<lambda>flt retVal. if isDifferentiable flt \<and> 0 < weight flt
                         then (case filter_cost E G flt f of Inl e \<Rightarrow> Inl e
                               | Inr None \<Rightarrow> Inl TypeError
                               | Inr (Some c) \<Rightarrow> Inr (retVal + c))
                         else Inr retVal) (filters s) 0 = Inr (0 + sum_list cs)"
    unfolding participating_def by (intro foldE_scalar_sum) simp
  with a show "filterSequence_cost E G s f = Inr (beta s * sum_list cs)"
    unfolding filterSequence_cost_def
    using foldE_nth [of "\<lambda>flt retVal. if isDifferentiable flt \<and> 0 < weight flt
                         then (case filter_cost E G flt f of Inl e \<Rightarrow> Inl e
                               | Inr None \<Rightarrow> Inl TypeError
                               | Inr (Some c) \<Rightarrow> Inr (retVal + c))
                         else Inr retVal" "filters s" 0]
    by (simp add: mult.commute)
next
  assume a: "0 < beta s
     \<and> list_all2 (\<lambda>flt g. filter_gradient E flt f = Inr (Some g) \<and> length g = length f)
          (participating s) gs"
  have "foldE (\<lambda>flt D. if isDifferentiable flt \<and> 0 < weight flt
                         then (case filter_gradient E flt f of Inl e \<Rightarrow> Inl e
                               | Inr None \<Rightarrow> Inl TypeError
                               | Inr (Some g) \<Rightarrow> Inr (vadd D g))
                         else Inr D) (filters s) (map (\<lambda>_. 0) f)
         = Inr (map (\<lambda>i. map (\<lambda>_. 0) f ! i + (\<Sum>g\<leftarrow>gs. g ! i)) [0..<length f])"
    using a unfolding participating_def by (intro foldE_volume_sum) simp_all
  also have "map (\<lambda>i. map (\<lambda>_. 0) f ! i + (\<Sum>g\<leftarrow>gs. g ! i)) [0..<length f]
               = map (\<lambda>i. (\<Sum>g\<leftarrow>gs. g ! i)) [0..<length f]"
    by simp
  finally show "filterSequence_gradient E s f
                = Inr (map (\<lambda>i. beta s * (\<Sum>g\<leftarrow>gs. g ! i)) [0..<length f])"
    unfolding filterSequence_gradient_def
    using a assms foldE_nth [of "\<lambda>flt D. if isDifferentiable flt \<and> 0 < weight flt
                         then (case filter_gradient E flt f of Inl e \<Rightarrow> Inl e
                               | Inr None \<Rightarrow> Inl TypeError
                               | Inr (Some g) \<Rightarrow> Inr (vadd D g))
                         else Inr D" "filters s" "map (\<lambda>_. 0) f"]
    by (simp add: fill_def copyData_def smul_def o_def)
next
  assume a: "0 < beta s
     \<and> list_all2 (\<lambda>flt q. filter_quadForm E flt f d = Inr (Some q)) (participating s) qs"
  then have "foldE (\<lambda>flt retVal. if isDifferentiable flt \<and> 0 < weight flt
                         then (case filter_quadForm E flt f d of Inl e \<Rightarrow> Inl e
                               | Inr None \<Rightarrow> Inl TypeError
                               | Inr (Some c) \<Rightarrow> Inr (retVal + c))
                         else Inr retVal) (filters s) 0 = Inr (0 + sum_list qs)"
    unfolding participating_def by (intro foldE_scalar_sum) simp
  with a show "filterSequence_quadForm E s f d = Inr (beta s * sum_list qs)"
    unfolding filterSequence_quadForm_def
    using foldE_nth [of "\<lambda>flt retVal. if isDifferentiable flt \<and> 0 < weight flt
                         then (case filter_quadForm E flt f d of Inl e \<Rightarrow> Inl e
                               | Inr None \<Rightarrow> Inl TypeError
                               | Inr (Some c) \<Rightarrow> Inr (retVal + c))
                         else Inr retVal" "filters s" 0]
    by (simp add: mult.commute)
qed

lemma upt_0_3: "[0..<3] = [0, 1, 2]"
  by (simp add: upt_rec)

lemma LpNorm_reference_values:
  "filter_cost E G (LpNorm_init 2 (1 / 2) None) [1, - 1, 2] = Inr (Some 3)"
  "filter_gradient E (LpNorm_init 2 (1 / 2) None) [1, - 1, 2] = Inr (Some [1, - 1, 2])"
  "filter_quadForm E (LpNorm_init 2 (1 / 2) None) [1, - 1, 2] [1, 1, 1] = Inr (Some 3)"
  by (simp_all add: filter_cost_def filter_gradient_def filter_quadForm_def
      LpNorm_init_def LpNorm_cost_def LpNorm_gradient_def LpNorm_quadForm_def
      vpower_def np_power_def float32_result_def float32_overflow_def leapct_abs_def leapct_sum_def
      leapct_sign_def leapct_innerProd_def copyData_def assign_where_def vmul_def smul_def
      Let_def)

lemma participating_example:
  "participating \<lparr>filters = [LpNorm_init 2 (1 / 2) None, BlurFilter_init 1], beta = b\<rparr>
     = [LpNorm_init 2 (1 / 2) None]"
  by (simp add: participating_def LpNorm_init_def BlurFilter_init_def)

theorem filterSequence_weighted_sums_witness:
  "filters \<lparr>filters = [LpNorm_init 2 0.5 None, BlurFilter_init 1], beta = 2\<rparr> \<noteq> []
   \<and> 0 < beta \<lparr>filters = [LpNorm_init 2 0.5 None, BlurFilter_init 1], beta = 2\<rparr>
   \<and> list_all2 (\<lambda>flt c. filter_cost still_leapct None flt [1, - 1, 2] = Inr (Some c))
        (participating \<lparr>filters = [LpNorm_init 2 0.5 None, BlurFilter_init 1], beta = 2\<rparr>) [3]
   \<and> list_all2 (\<lambda>flt g. filter_gradient still_leapct flt [1, - 1, 2] = Inr (Some g)
                       \<and> length g = length [1, - 1, 2 :: real])
        (participating \<lparr>filters = [LpNorm_init 2 0.5 None, BlurFilter_init 1], beta = 2\<rparr>)
        [[1, - 1, 2]]
   \<and> list_all2 (\<lambda>flt q. filter_quadForm still_leapct flt [1, - 1, 2] [1, 1, 1] = Inr (Some q))
        (participating \<lparr>filters = [LpNorm_init 2 0.5 None, BlurFilter_init 1], beta = 2\<rparr>) [3]
   \<and> filterSequence_cost still_leapct None
        \<lparr>filters = [LpNorm_init 2 0.5 None, BlurFilter_init 1], beta = 2\<rparr> [1, - 1, 2] = Inr 6
   \<and> filterSequence_gradient still_leapct
        \<lparr>filters = [LpNorm_init 2 0.5 None, BlurFilter_init 1], beta = 2\<rparr> [1, - 1, 2]
        = Inr [2, - 2, 4]
   \<and> filterSequence_quadForm still_leapct
        \<lparr>filters = [LpNorm_init 2 0.5 None, BlurFilter_init 1], beta = 2\<rparr> [1, - 1, 2] [1, 1, 1]
        = Inr 6
   \<and> beta \<lparr>filters = [LpNorm_init 2 0.5 None, BlurFilter_init 1], beta = 0\<rparr> \<le> 0
   \<and> filterSequence_cost still_leapct None
        \<lparr>filters = [LpNorm_init 2 0.5 None, BlurFilter_init 1], beta = 0\<rparr> [1, - 1, 2] = Inr 0
   \<and> filterSequence_gradient still_leapct
        \<lparr>filters = [LpNorm_init 2 0.5 None, BlurFilter_init 1], beta = 0\<rparr> [1, - 1, 2]
        = Inr [0, 0, 0]
   \<and> filterSequence_quadForm still_leapct
        \<lparr>filters = [LpNorm_init 2 0.5 None, BlurFilter_init 1], beta = 0\<rparr> [1, - 1, 2] [1, 1, 1]
        = Inr 0"
  using filterSequence_weighted_sums
      [where s = "\<lparr>filters = [LpNorm_init 2 0.5 None, BlurFilter_init 1], beta = 2\<rparr>"
         and E = still_leapct and G = None and f = "[1, - 1, 2]" and d = "[1, 1, 1]"
         and cs = "[3]" and gs = "[[1, - 1, 2]]" and qs = "[3]"]
    filterSequence_weighted_sums
      [where s = "\<lparr>filters = [LpNorm_init 2 0.5 None, BlurFilter_init 1], beta = 0\<rparr>"
         and E = still_leapct and G = None and f = "[1, - 1, 2]" and d = "[1, 1, 1]"
         and cs = "[]" and gs = "[]" and qs = "[]"]
  by (simp add: participating_example LpNorm_reference_values upt_0_3)

text \<open>
  C8. \<^verbatim>\<open>filterSequence.apply\<close> applies every filter of the list in list order, each on the
  result of the one before, whatever \<^verbatim>\<open>beta\<close> and the flags and weights of the filters
  are, and returns the resulting volume.
\<close>

theorem filterSequence_apply_in_order:
  "filterSequence_apply E s f = apply_in_order E (filters s) f"
proof -
  have "foldE (\<lambda>flt f. case filter_apply E flt f of Inl e \<Rightarrow> Inl e | Inr None \<Rightarrow> Inr f
                        | Inr (Some v) \<Rightarrow> Inr v) fs f = apply_in_order E fs f" for fs
    by (induction fs arbitrary: f) (auto split: sum.splits option.splits)
  then show ?thesis
    unfolding filterSequence_apply_def
    using foldE_nth [of "\<lambda>flt f. case filter_apply E flt f of Inl e \<Rightarrow> Inl e | Inr None \<Rightarrow> Inr f
                        | Inr (Some v) \<Rightarrow> Inr v" "filters s" f] by simp
qed

section \<open>The zero guard of the quadratic forms\<close>








text \<open>Without the guard, a zero base under a negative exponent leaves the finite numbers.\<close>

lemma vpower_error: "vpower xs e = Inl err \<Longrightarrow> err = NonFinite"
  unfolding vpower_def
  by (induction xs) (auto simp: np_power_def float32_result_def split: sum.splits if_splits)

lemma unguarded_power_at_zero:
  assumes "e < 0" and "0 \<in> set xs"
  shows "vpower (leapct_abs xs) e = Inl NonFinite"
proof -
  have np0: "np_power 0 e = Inl NonFinite"
    using assms(1) by (simp add: np_power_def)
  from assms(2) have "\<exists>err. traverse (\<lambda>x. np_power x e) (map abs xs) = Inl err"
    by (induction xs) (auto simp: np0 split: sum.splits)
  then show ?thesis
    using vpower_error by (auto simp: vpower_def leapct_abs_def)
qed

section \<open>The LpNorm reference case\<close>

text \<open>
  C6. \<^verbatim>\<open>LpNorm\<close> with \<open>p = 2\<close>, weight 0.5 and no prior at \<open>f = [1, -1, 2]\<close>: the cost is
  3, the gradient is \<open>[1, -1, 2]\<close>, the quadratic form along \<open>[1, 1, 1]\<close> is 3, and the step
  size of the generic \<^verbatim>\<open>apply\<close>, the sum of the squared gradient over the quadratic form
  along the gradient, is 6 / 6 = 1, so that \<^verbatim>\<open>apply\<close> returns the zero volume.
\<close>

theorem LpNorm_reference_case:
  "filter_cost E G (LpNorm_init 2 0.5 None) [1, - 1, 2] = Inr (Some 3.0)
   \<and> filter_gradient E (LpNorm_init 2 0.5 None) [1, - 1, 2] = Inr (Some [1, - 1, 2])
   \<and> filter_quadForm E (LpNorm_init 2 0.5 None) [1, - 1, 2] [1, 1, 1] = Inr (Some 3.0)
   \<and> filter_quadForm E (LpNorm_init 2 0.5 None) [1, - 1, 2] [1, - 1, 2] = Inr (Some 6)
   \<and> leapct_sum (map (\<lambda>x. x ^ 2) [1, - 1, 2]) / 6 = 1.0
   \<and> filter_apply E (LpNorm_init 2 0.5 None) [1, - 1, 2] = Inr (Some [0, 0, 0])"
  by (simp add: filter_cost_def filter_gradient_def filter_quadForm_def filter_apply_def
      LpNorm_init_def LpNorm_cost_def LpNorm_gradient_def LpNorm_quadForm_def LpNorm_apply_def
      denoisingFilter_apply_def vpower_def np_power_def float32_result_def float32_overflow_def leapct_abs_def leapct_sum_def
      leapct_sign_def leapct_innerProd_def copyData_def assign_where_def vmul_def smul_def
      vsub_def Let_def)

section \<open>Norm orders at construction\<close>

lemma LpNorm_init_p: "variant (LpNorm_init p w f_0) = LpNorm q g \<Longrightarrow> 0 \<le> q"
  by (auto simp: LpNorm_init_def)

lemma TV_init_p: "variant (TV_init delta p w f_0) = TV dl q g \<Longrightarrow> 0.01 \<le> q"
  by (auto simp: TV_init_def)

text \<open>
  C10. \<^verbatim>\<open>LpNorm\<close> and \<^verbatim>\<open>TV\<close> clamp the norm order; \<^verbatim>\<open>azimuthalFilter.__init__\<close>
  stores the argument as it is: constructed with \<open>p = -1\<close> it holds \<open>p = -1\<close>.
\<close>

theorem azimuthalFilter_init_keeps_negative_p:
  "variant (azimuthalFilter_init 1 (- 1) 1) = azimuthalFilter 1 (- 1)"
  by (simp add: azimuthalFilter_init_def)

section \<open>TV with a prior\<close>

lemma TV_apply_prior: "TV_apply E delta p (Some f0) f = vadd f f0"
  by (simp add: TV_apply_def)

text \<open>
  C4. \<^verbatim>\<open>TV.apply\<close> with the prior \<open>f_0 = [1]\<close> at \<open>f = [1]\<close> returns \<open>f + f_0 = [2]\<close>; the
  diffusion of the centered volume with the prior added back is \<open>[1]\<close> for an engine whose
  diffusion keeps the zero volume.
\<close>

theorem TV_apply_prior_drops_diffusion:
  "filter_apply still_leapct (TV_init 0 1.2 1 (Some [1])) [1] = Inr (Some [2])
   \<and> vadd (leapct_diffuse still_leapct (vsub [1] [1]) 0 1 1.2) [1] = [1]"
  by (simp add: filter_apply_def TV_init_def TV_apply_def vadd_def vsub_def still_leapct_def)

section \<open>The cost of azimuthalFilter\<close>

lemma azimuthalFilter_cost_unbound: "azimuthalFilter_cost E None w FWHM p f = Inl NameError"
  by (simp add: azimuthalFilter_cost_def)

lemma azimuthalFilter_cost_ignores_own_p:
  "azimuthalFilter_cost E global_p w FWHM p f = azimuthalFilter_cost E global_p w FWHM q f"
  by (simp add: azimuthalFilter_cost_def)

text \<open>
  C5. \<^verbatim>\<open>azimuthalFilter.cost\<close> reads the bare name \<^verbatim>\<open>p\<close>, not \<^verbatim>\<open>self.p\<close>: with no
  such global name the call raises \<^verbatim>\<open>NameError\<close> and returns no cost.
\<close>

theorem azimuthalFilter_cost_NameError:
  "filter_cost still_leapct None (azimuthalFilter_init 1 2 1) [1] = Inl NameError"
  by (simp add: filter_cost_def azimuthalFilter_init_def azimuthalFilter_cost_def)

section \<open>The quadratic form of histogramSparsity\<close>

lemma upt_1_3: "[1..<3] = [1, 2]"
  by (simp add: upt_rec)

text \<open>
  C3. \<^verbatim>\<open>histogramSparsity\<close> constructed with \<open>mus = [1, 2]\<close> and weight 1 has the targets
  \<open>[0, 1, 2]\<close>. At \<open>f = [3]\<close>, \<open>d = [1]\<close> the loop of \<^verbatim>\<open>quadForm\<close> goes from \<open>|3 - 0| = 3\<close>
  to \<open>min(3, |3 - 1|) = 2\<close> to \<open>min(2, |2 - 2|) = 0\<close> and the method returns 8; the least
  distance from 3 to a target is 1, for which the claim's formula gives 8 / 25.
\<close>

theorem histogramSparsity_quadForm_running_minimum:
  "histogramSparsity_init [1, 2] 1
     = Inr \<lparr>weight = 1, isDifferentiable = True, variant = histogramSparsity [0, 1, 2] (1 / 4)\<rparr>
   \<and> histogramSparsity_quadForm 1 [0, 1, 2] (1 / 4) [3] [1] = Inr 8
   \<and> histogramSparsity_quadForm_spec 1 [0, 1, 2] (1 / 4) [3] [1] = Inr (8 / 25)"
proof (intro conjI)
  show "histogramSparsity_init [1, 2] 1
     = Inr \<lparr>weight = 1, isDifferentiable = True, variant = histogramSparsity [0, 1, 2] (1 / 4)\<rparr>"
    by (simp add: histogramSparsity_init_def Let_def upt_1_3)
  show "histogramSparsity_quadForm 1 [0, 1, 2] (1 / 4) [3] [1] = Inr 8"
    by (simp add: histogramSparsity_quadForm_def Let_def upt_1_3 leapct_abs_def ssub_def
        copyData_def leapct_minimum_def Geman1_over_x_def np_divide_def leapct_innerProd_def)
  show "histogramSparsity_quadForm_spec 1 [0, 1, 2] (1 / 4) [3] [1] = Inr (8 / 25)"
    by (simp add: histogramSparsity_quadForm_spec_def minDist_spec_def Geman1_def
        np_divide_def leapct_innerProd_def)
qed

section \<open>Construction of histogramSparsity\<close>

text \<open>A list with one entry or none takes the branch that sets \<^verbatim>\<open>GemanParam\<close> to \<open>1e-5\<close>.\<close>

lemma histogramSparsity_init_single_entry:
  "histogramSparsity_init [] w
     = Inr \<lparr>weight = w, isDifferentiable = True, variant = histogramSparsity [0] 0.00001\<rparr>"
  "histogramSparsity_init [0] w
     = Inr \<lparr>weight = w, isDifferentiable = True, variant = histogramSparsity [0] 0.00001\<rparr>"
  by (simp_all add: histogramSparsity_init_def)

text \<open>Every list of two or more zeros makes the constructor raise.\<close>

lemma histogramSparsity_init_zeros:
  assumes "2 \<le> n"
  shows "histogramSparsity_init (replicate n 0) w = Inl IndexError"
proof -
  have "remdups (replicate (Suc k) (0 :: real)) = [0]" for k
    by (induction k) simp_all
  from this [of "n - 1"] assms have "remdups (replicate n (0 :: real)) = [0]"
    by simp
  with assms show ?thesis
    by (simp add: histogramSparsity_init_def Let_def)
qed

text \<open>
  C9. \<^verbatim>\<open>histogramSparsity\<close> constructed with \<open>mus = [0, 0]\<close>: the test \<^verbatim>\<open>mus.size > 1\<close>
  reads the array with its duplicates, \<^verbatim>\<open>self.mus\<close> has the one entry 0, and
  \<^verbatim>\<open>self.mus[1]\<close> raises \<^verbatim>\<open>IndexError\<close>. The claim's target set for this list is
  \<open>[0]\<close>, one target value, for which it gives \<^verbatim>\<open>GemanParam\<close> \<open>= 1e-5\<close>.
\<close>

theorem histogramSparsity_init_duplicate_zeros:
  "histogramSparsity_init [0, 0] 1 = Inl IndexError
   \<and> targets_spec [0, 0] = [0]
   \<and> GemanParam_spec (targets_spec [0, 0]) = 0.00001"
  by (simp add: histogramSparsity_init_def Let_def targets_spec_def GemanParam_spec_def)

end
